theory Spec2Isabelle
  imports Complex_Main
begin

section \<open>The AgentHub client (agenthub/client.py)\<close>

text \<open>
  The client is one class, \<^verbatim>\<open>AgentHub\<close>, with one field \<^verbatim>\<open>_http\<close> (a reference to an
  HTTP transport) and two methods, \<^verbatim>\<open>find_agent\<close> and \<^verbatim>\<open>create_session\<close>. Each method
  issues one request inside an \<^verbatim>\<open>async with\<close> block, reads the JSON body of the response
  and subscripts it. The development below embeds the two methods as functions on an explicit
  world: a store of Python objects, the log of issued requests and the log of the response
  scopes that were entered and left.
\<close>

subsection \<open>JSON values\<close>

text \<open>
  What \<^verbatim>\<open>resp.json()\<close> returns and what the caller passes in: \<^verbatim>\<open>None\<close>, booleans, numbers,
  strings, lists and dictionaries with string keys. A dictionary is an association list read
  with \<^const>\<open>map_of\<close> (the first entry of a key is the one the dictionary holds). A string
  is a list of characters, each standing for one code point.
\<close>

datatype json =
    JNull
  | JBool bool
  | JInt int
  | JFloat real
  | JStr string
  | JArr "json list"
  | JObj "(string \<times> json) list"

subsection \<open>Exceptions\<close>

text \<open>
  The exceptions a call can end with. \<open>KeyError\<close> carries the missing key.
  \<open>TransportError\<close> and \<open>ParseError\<close> are raised by the transport, never by the client.
\<close>

datatype py_error =
    KeyError json
  | IndexError
  | TypeError
  | AttributeError
  | TransportError string
  | ParseError string

fun is_KeyError :: "py_error \<Rightarrow> bool" where
  "is_KeyError (KeyError k) = True"
| "is_KeyError e = False"

text \<open>Python's \<^verbatim>\<open>LookupError\<close> is the common base class of \<^verbatim>\<open>KeyError\<close> and \<^verbatim>\<open>IndexError\<close>.\<close>

fun is_LookupError :: "py_error \<Rightarrow> bool" where
  "is_LookupError (KeyError k) = True"
| "is_LookupError IndexError = True"
| "is_LookupError e = False"

subsection \<open>Subscription\<close>

text \<open>
  \<^verbatim>\<open>x["key"]\<close>: a dictionary yields the value or raises \<^verbatim>\<open>KeyError\<close>; every other JSON
  value raises \<^verbatim>\<open>TypeError\<close> (a list or a string wants an integer index; \<^verbatim>\<open>None\<close>, booleans
  and numbers are not subscriptable).
\<close>

fun getitem_str :: "json \<Rightarrow> string \<Rightarrow> py_error + json" where
  "getitem_str (JObj kvs) k =
     (case map_of kvs k of None \<Rightarrow> Inl (KeyError (JStr k)) | Some v \<Rightarrow> Inr v)"
| "getitem_str j k = Inl TypeError"

text \<open>
  \<^verbatim>\<open>x[i]\<close> for an integer \<^verbatim>\<open>i\<close>: in a list or a string of length \<open>len\<close> the positions
  are \<open>0 .. len - 1\<close>, also reachable as \<open>- len .. - 1\<close>, and any other index raises
  \<^verbatim>\<open>IndexError\<close>; a dictionary parsed from JSON has only string keys, so
  it raises \<^verbatim>\<open>KeyError\<close>; the rest raise \<^verbatim>\<open>TypeError\<close>.
\<close>

definition seq_index :: "nat \<Rightarrow> int \<Rightarrow> nat option" where
  "seq_index len i =
     (if 0 \<le> i \<and> i < int len then Some (nat i)
      else if i < 0 \<and> - int len \<le> i then Some (nat (int len + i))
      else None)"

fun getitem_int :: "json \<Rightarrow> int \<Rightarrow> py_error + json" where
  "getitem_int (JArr xs) i =
     (case seq_index (length xs) i of None \<Rightarrow> Inl IndexError | Some p \<Rightarrow> Inr (xs ! p))"
| "getitem_int (JStr s) i =
     (case seq_index (length s) i of None \<Rightarrow> Inl IndexError | Some p \<Rightarrow> Inr (JStr [s ! p]))"
| "getitem_int (JObj kvs) i = Inl (KeyError (JInt i))"
| "getitem_int j i = Inl TypeError"

subsection \<open>The transport\<close>

text \<open>
  A request as the client hands it to the transport: \<^verbatim>\<open>get(path, params=...)\<close> or
  \<^verbatim>\<open>post(path, json=...)\<close>.
\<close>

datatype request =
    GET string "(string \<times> string) list"
  | POST string json

text \<open>
  What entering the response scope gives: the request fails (\<open>Refused\<close>, no response is
  acquired), or a response is acquired whose \<^verbatim>\<open>json()\<close> either raises (\<open>Malformed\<close>) or
  returns a value (\<open>Body\<close>).
\<close>

datatype reply =
    Refused string
  | Malformed string
  | Body json

text \<open>
  The transport is the external collaborator (\<^verbatim>\<open>aiohttp.ClientSession\<close> or a test double).
  All the client sees of it is the reply to a request and the transport it has become after
  that request.
\<close>

codatatype transport =
  Transport (respond: "request \<Rightarrow> reply") (advance: "request \<Rightarrow> transport")

subsection \<open>Objects and the world\<close>

type_synonym ref = nat

text \<open>An \<^verbatim>\<open>AgentHub\<close> instance: its only field is \<^verbatim>\<open>_http\<close>, a reference to the transport.\<close>

record AgentHub =
  http :: ref

datatype pyobj =
    Hub AgentHub
  | Session transport
  | Val json

text \<open>
  What happens to a response, as the context manager protocol of \<^verbatim>\<open>async with\<close> has it:
  \<^verbatim>\<open>__aenter__\<close> hands the response out (\<open>Enter\<close>, the response is acquired), and
  \<^verbatim>\<open>__aexit__(exc_type, exc, tb)\<close> is called on it when the block is left (\<open>Exit\<close>, the
  response is released), with the exception the block raised, or \<^verbatim>\<open>None\<close> when it returned.
\<close>

datatype scope_event =
    Enter nat
  | Exit nat "py_error option"

text \<open>
  The store maps every reference to an object (\<^verbatim>\<open>None\<close>, that is \<open>Val JNull\<close>, where
  nothing else was put). \<open>sent\<close> logs the requests issued, oldest first. \<open>scopes\<close> logs the
  scope events of the responses, oldest first; \<open>next_resp\<close> numbers the responses.
\<close>

record world =
  heap :: "ref \<Rightarrow> pyobj"
  sent :: "request list"
  scopes :: "scope_event list"
  next_resp :: nat

type_synonym 'a outcome = "(py_error + 'a) \<times> world"

subsection \<open>The two methods\<close>

text \<open>
  \<^verbatim>\<open>self._http.get\<close> and \<^verbatim>\<open>self._http.post\<close>: the attribute \<^verbatim>\<open>_http\<close> of the client, then the
  method \<open>meth\<close> of the object behind it. A transport has both methods. A dictionary has a
  \<^verbatim>\<open>get\<close> of its own, which takes no keyword argument, so the call with \<^verbatim>\<open>params=...\<close> raises
  \<^verbatim>\<open>TypeError\<close>; it has no \<^verbatim>\<open>post\<close>. No other object has either attribute.
\<close>

definition http_of :: "world \<Rightarrow> ref \<Rightarrow> string \<Rightarrow> py_error + (ref \<times> transport)" where
  "http_of w self meth =
     (case heap w self of
        Hub h \<Rightarrow>
          (case heap w (http h) of
             Session tr \<Rightarrow> Inr (http h, tr)
           | Val (JObj kvs) \<Rightarrow> (if meth = ''get'' then Inl TypeError else Inl AttributeError)
           | _ \<Rightarrow> Inl AttributeError)
      | _ \<Rightarrow> Inl AttributeError)"

text \<open>The exception a block ended with, as \<^verbatim>\<open>__aexit__\<close> receives it.\<close>

fun raised :: "py_error + json \<Rightarrow> py_error option" where
  "raised (Inl e) = Some e"
| "raised (Inr v) = None"

text \<open>
  \<^verbatim>\<open>async with <request> as resp: <body>\<close>. The request is issued and the transport moves
  on. If entering fails, the exception propagates and nothing was acquired. Otherwise
  \<^verbatim>\<open>__aenter__\<close> hands out the response, the body of the block runs, and \<^verbatim>\<open>__aexit__\<close> is
  called with what the body raised, whether it returned or raised; the result of the body is
  the result of the statement.
\<close>

definition async_with ::
  "ref \<times> transport \<Rightarrow> request \<Rightarrow> (reply \<Rightarrow> py_error + json) \<Rightarrow> world \<Rightarrow> json outcome" where
  "async_with c req body w =
     (let t = fst c; tr = snd c;
          w1 = w\<lparr>heap := (heap w)(t := Session (advance tr req)), sent := sent w @ [req]\<rparr>
      in case respond tr req of
           Refused msg \<Rightarrow> (Inl (TransportError msg), w1)
         | resp \<Rightarrow>
             (let rid = next_resp w1;
                  w2 = w1\<lparr>scopes := scopes w1 @ [Enter rid], next_resp := Suc rid\<rparr>;
                  r = body resp;
                  w3 = w2\<lparr>scopes := scopes w2 @ [Exit rid (raised r)]\<rparr>
              in (r, w3)))"

text \<open>\<^verbatim>\<open>await resp.json()\<close> on an acquired response.\<close>

fun resp_json :: "reply \<Rightarrow> py_error + json" where
  "resp_json (Body j) = Inr j"
| "resp_json (Malformed msg) = Inl (ParseError msg)"
| "resp_json (Refused msg) = Inl (TransportError msg)"

text \<open>
  The block of \<^verbatim>\<open>find_agent\<close>:
  \<^verbatim>\<open>data = await resp.json(); return data["agents"][0]\<close>
\<close>

definition find_agent_body :: "reply \<Rightarrow> py_error + json" where
  "find_agent_body resp =
     (case resp_json resp of
        Inl e \<Rightarrow> Inl e
      | Inr data \<Rightarrow>
          (case getitem_str data ''agents'' of
             Inl e \<Rightarrow> Inl e
           | Inr agents \<Rightarrow> getitem_int agents 0))"

text \<open>
  \<^verbatim>\<open>async with self._http.get("/agents", params={"name": name}) as resp: ...\<close>
\<close>

definition find_agent :: "ref \<Rightarrow> string \<Rightarrow> world \<Rightarrow> json outcome" where
  "find_agent self name w =
     (case http_of w self ''get'' of
        Inl e \<Rightarrow> (Inl e, w)
      | Inr c \<Rightarrow> async_with c (GET ''/agents'' [(''name'', name)]) find_agent_body w)"

text \<open>
  The block of \<^verbatim>\<open>create_session\<close>:
  \<^verbatim>\<open>data = await resp.json(); return data["session"]\<close>
\<close>

definition create_session_body :: "reply \<Rightarrow> py_error + json" where
  "create_session_body resp =
     (case resp_json resp of
        Inl e \<Rightarrow> Inl e
      | Inr data \<Rightarrow> getitem_str data ''session'')"

text \<open>
  \<^verbatim>\<open>agent["id"]\<close> on the object the caller passed: a JSON value is subscripted, a client or a
  transport is not subscriptable.
\<close>

fun agent_id :: "pyobj \<Rightarrow> py_error + json" where
  "agent_id (Val a) = getitem_str a ''id''"
| "agent_id obj = Inl TypeError"

text \<open>
  \<^verbatim>\<open>async with self._http.post("/sessions", json={"agent_id": agent["id"]}) as resp: ...\<close>
  Python evaluates \<^verbatim>\<open>self._http.post\<close> first, then the arguments (here the dictionary
  display, with \<^verbatim>\<open>agent["id"]\<close> inside it), then makes the call.
\<close>

definition create_session :: "ref \<Rightarrow> ref \<Rightarrow> world \<Rightarrow> json outcome" where
  "create_session self agent w =
     (case http_of w self ''post'' of
        Inl e \<Rightarrow> (Inl e, w)
      | Inr c \<Rightarrow>
          (case agent_id (heap w agent) of
             Inl e \<Rightarrow> (Inl e, w)
           | Inr v \<Rightarrow>
               async_with c (POST ''/sessions'' (JObj [(''agent_id'', v)])) create_session_body w))"

subsection \<open>A test double after tests/test\_client.py\<close>

text \<open>
  The double that \<^verbatim>\<open>MockClientSession(responses)\<close> and \<^verbatim>\<open>MockResponse\<close> of the test file
  describe: every GET is answered by a response with the body \<^verbatim>\<open>responses["get"]\<close>, every
  POST by one with the body \<^verbatim>\<open>responses["post"]\<close>, and the double stays as it is. (The class
  of the test file hands the client \<^verbatim>\<open>AsyncMock\<close> attributes, whose calls return coroutines
  and not context managers; what is modelled here is the transport the two classes describe,
  one that supports the scope protocol.)
\<close>

primcorec stateless :: "(request \<Rightarrow> reply) \<Rightarrow> transport" where
  "respond (stateless f) = f"
| "advance (stateless f) = (\<lambda>req. stateless f)"

fun mock_reply :: "json \<Rightarrow> json \<Rightarrow> request \<Rightarrow> reply" where
  "mock_reply g p (GET path params) = Body g"
| "mock_reply g p (POST path body) = Body p"

definition MockClientSession :: "json \<Rightarrow> json \<Rightarrow> transport" where
  "MockClientSession g p = stateless (mock_reply g p)"

text \<open>
  The world of a test: the client at reference 0, its transport at 1, the caller's agent at 2.
\<close>

definition test_world :: "transport \<Rightarrow> json \<Rightarrow> world" where
  "test_world tr agent =
     \<lparr>heap = (\<lambda>r. Val JNull)(0 := Hub \<lparr>http = 1\<rparr>, 1 := Session tr, 2 := Val agent),
      sent = [], scopes = [], next_resp = 0\<rparr>"

definition mock_agent :: json where
  "mock_agent =
     JObj [(''id'', JStr ''test-agent-1''), (''name'', JStr ''gpt4''),
           (''capabilities'', JArr [JStr ''chat'', JStr ''completion''])]"

definition mock_session :: json where
  "mock_session =
     JObj [(''id'', JStr ''test-session-1''), (''agent_id'', JStr ''test-agent-1''),
           (''status'', JStr ''active'')]"

section \<open>Properties\<close>

subsection \<open>What one request scope does to the world\<close>

lemma http_of_hub:
  "heap w self = Hub h \<Longrightarrow> heap w (http h) = Session tr
     \<Longrightarrow> http_of w self meth = Inr (http h, tr)"
  by (simp add: http_of_def)

lemma http_of_not_self:
  "http_of w self meth = Inr c \<Longrightarrow> fst c \<noteq> self"
  by (auto simp: http_of_def split: pyobj.splits json.splits if_splits)

lemma http_of_Session:
  "http_of w self meth = Inr c \<Longrightarrow> heap w (fst c) = Session (snd c)"
  by (auto simp: http_of_def split: pyobj.splits json.splits if_splits)

lemma agent_id_not_Session:
  "agent_id (heap w agent) = Inr v \<Longrightarrow> heap w agent \<noteq> Session tr"
  by (cases "heap w agent") auto

lemma seq_index_0 [simp]: "seq_index len 0 = (if len = 0 then None else Some 0)"
  by (simp add: seq_index_def)

lemma sent_async_with:
  "sent (snd (async_with c req body w)) = sent w @ [req]"
  by (simp add: async_with_def Let_def split: reply.split)

lemma fst_async_with:
  "fst (async_with c req body w) =
     (case respond (snd c) req of Refused msg \<Rightarrow> Inl (TransportError msg) | resp \<Rightarrow> body resp)"
  by (simp add: async_with_def Let_def split: reply.split)

lemma scopes_async_with:
  "scopes (snd (async_with c req body w)) =
     (case respond (snd c) req of
        Refused msg \<Rightarrow> scopes w
      | resp \<Rightarrow> scopes w @ [Enter (next_resp w), Exit (next_resp w) (raised (body resp))])"
  by (simp add: async_with_def Let_def split: reply.split)

lemma heap_async_with:
  "heap (snd (async_with c req body w)) = (heap w)(fst c := Session (advance (snd c) req))"
  by (simp add: async_with_def Let_def split: reply.split)

lemma fst_find_agent:
  assumes "heap w self = Hub h" and "heap w (http h) = Session tr"
  shows "fst (find_agent self name w) =
           (case respond tr (GET ''/agents'' [(''name'', name)]) of
              Refused msg \<Rightarrow> Inl (TransportError msg)
            | resp \<Rightarrow> find_agent_body resp)"
  using assms by (simp add: find_agent_def http_of_hub fst_async_with)

lemma heap_find_agent:
  assumes "heap w self = Hub h" and "heap w (http h) = Session tr"
  shows "heap (snd (find_agent self name w)) =
           (heap w)(http h := Session (advance tr (GET ''/agents'' [(''name'', name)])))"
  using assms by (simp add: find_agent_def http_of_hub heap_async_with)

subsection \<open>Requests and results\<close>

text \<open>
  C1. For every name, \<open>find_agent\<close> on a client with a transport issues exactly one request,
  the GET of \<^verbatim>\<open>/agents\<close> with the name as the query parameter \<^verbatim>\<open>name\<close>; and when the body
  of the response is a JSON object whose \<^verbatim>\<open>agents\<close> entry is a non-empty array, the call
  returns the first element of that array as it is.
\<close>

theorem find_agent_get_first:
  assumes "heap w self = Hub h" and "heap w (http h) = Session tr"
  shows "sent (snd (find_agent self name w)) = sent w @ [GET ''/agents'' [(''name'', name)]] \<and>
         (\<forall>kvs a rest.
            respond tr (GET ''/agents'' [(''name'', name)]) = Body (JObj kvs) \<and>
            map_of kvs ''agents'' = Some (JArr (a # rest))
            \<longrightarrow> fst (find_agent self name w) = Inr a)"
  using assms
  by (simp add: find_agent_def http_of_hub sent_async_with fst_async_with find_agent_body_def)

theorem find_agent_get_first_witness:
  "sent (snd (find_agent 0 ''gpt4''
       (test_world (MockClientSession (JObj [(''agents'', JArr [mock_agent])]) JNull) JNull)))
     = [GET ''/agents'' [(''name'', ''gpt4'')]] \<and>
   fst (find_agent 0 ''gpt4''
       (test_world (MockClientSession (JObj [(''agents'', JArr [mock_agent])]) JNull) JNull))
     = Inr mock_agent"
  using find_agent_get_first [of
      "test_world (MockClientSession (JObj [(''agents'', JArr [mock_agent])]) JNull) JNull" 0
      "\<lparr>http = 1\<rparr>" "MockClientSession (JObj [(''agents'', JArr [mock_agent])]) JNull" "''gpt4''"]
  by (simp add: test_world_def MockClientSession_def)

text \<open>
  C2. For every agent dictionary with an \<^verbatim>\<open>id\<close> entry, \<open>create_session\<close> issues exactly one
  request, the POST of \<^verbatim>\<open>/sessions\<close> with the JSON body \<^verbatim>\<open>{"agent_id": agent["id"]}\<close>; and
  when the body of the response is a JSON object with a \<^verbatim>\<open>session\<close> entry, the call returns
  that entry as it is.
\<close>

theorem create_session_post_session:
  assumes "heap w self = Hub h" and "heap w (http h) = Session tr"
    and "heap w agent = Val (JObj items)" and "map_of items ''id'' = Some v"
  shows "sent (snd (create_session self agent w))
           = sent w @ [POST ''/sessions'' (JObj [(''agent_id'', v)])] \<and>
         (\<forall>kvs s.
            respond tr (POST ''/sessions'' (JObj [(''agent_id'', v)])) = Body (JObj kvs) \<and>
            map_of kvs ''session'' = Some s
            \<longrightarrow> fst (create_session self agent w) = Inr s)"
  using assms
  by (simp add: create_session_def http_of_hub sent_async_with fst_async_with
      create_session_body_def)

theorem create_session_post_session_witness:
  "sent (snd (create_session 0 2
       (test_world (MockClientSession JNull (JObj [(''session'', mock_session)])) mock_agent)))
     = [POST ''/sessions'' (JObj [(''agent_id'', JStr ''test-agent-1'')])] \<and>
   fst (create_session 0 2
       (test_world (MockClientSession JNull (JObj [(''session'', mock_session)])) mock_agent))
     = Inr mock_session"
  using create_session_post_session [of
      "test_world (MockClientSession JNull (JObj [(''session'', mock_session)])) mock_agent" 0
      "\<lparr>http = 1\<rparr>" "MockClientSession JNull (JObj [(''session'', mock_session)])" 2
      "[(''id'', JStr ''test-agent-1''), (''name'', JStr ''gpt4''),
        (''capabilities'', JArr [JStr ''chat'', JStr ''completion''])]" "JStr ''test-agent-1''"]
  by (simp add: test_world_def MockClientSession_def mock_agent_def)

subsection \<open>Failures\<close>

text \<open>
  C3. When the agent dictionary has no \<^verbatim>\<open>id\<close> entry, \<open>create_session\<close> ends with the
  \<^verbatim>\<open>KeyError\<close> of \<^verbatim>\<open>agent["id"]\<close>, raised while the request body is built: the world after the
  call is the world before it, so no request was issued.
\<close>

theorem create_session_missing_id_no_request:
  assumes "heap w self = Hub h" and "heap w (http h) = Session tr"
    and "heap w agent = Val (JObj items)" and "map_of items ''id'' = None"
  shows "create_session self agent w = (Inl (KeyError (JStr ''id'')), w)"
  using assms by (simp add: create_session_def http_of_hub)

theorem create_session_missing_id_no_request_witness:
  "create_session 0 2
     (test_world (MockClientSession JNull (JObj [(''session'', mock_session)]))
        (JObj [(''name'', JStr ''gpt4'')]))
     = (Inl (KeyError (JStr ''id'')),
        test_world (MockClientSession JNull (JObj [(''session'', mock_session)]))
          (JObj [(''name'', JStr ''gpt4'')])) \<and>
   sent (test_world (MockClientSession JNull (JObj [(''session'', mock_session)]))
          (JObj [(''name'', JStr ''gpt4'')])) = []"
  using create_session_missing_id_no_request [of
      "test_world (MockClientSession JNull (JObj [(''session'', mock_session)]))
         (JObj [(''name'', JStr ''gpt4'')])" 0
      "\<lparr>http = 1\<rparr>" "MockClientSession JNull (JObj [(''session'', mock_session)])" 2
      "[(''name'', JStr ''gpt4'')]"]
  by (simp add: test_world_def)

text \<open>
  C4. When the body of the response is a JSON object whose \<^verbatim>\<open>agents\<close> array is empty, or
  that has no \<^verbatim>\<open>agents\<close> entry, \<open>find_agent\<close> returns no value: it ends with the
  \<^verbatim>\<open>IndexError\<close> of \<^verbatim>\<open>[0]\<close>, respectively the \<^verbatim>\<open>KeyError\<close> of \<^verbatim>\<open>data["agents"]\<close>, both
  of the \<^verbatim>\<open>LookupError\<close> class and neither caught nor wrapped.
\<close>

theorem find_agent_no_agents_lookup_error:
  assumes "heap w self = Hub h" and "heap w (http h) = Session tr"
    and "respond tr (GET ''/agents'' [(''name'', name)]) = Body (JObj kvs)"
    and "map_of kvs ''agents'' = Some (JArr []) \<or> map_of kvs ''agents'' = None"
  shows "fst (find_agent self name w)
           = Inl (if map_of kvs ''agents'' = None then KeyError (JStr ''agents'') else IndexError) \<and>
         is_LookupError
           (if map_of kvs ''agents'' = None then KeyError (JStr ''agents'') else IndexError)"
  using assms
  by (auto simp: find_agent_def http_of_hub fst_async_with find_agent_body_def)

theorem find_agent_no_agents_lookup_error_witness:
  "fst (find_agent 0 ''gpt4''
       (test_world (MockClientSession (JObj [(''agents'', JArr [])]) JNull) JNull))
     = Inl IndexError \<and> is_LookupError IndexError"
  using find_agent_no_agents_lookup_error [of
      "test_world (MockClientSession (JObj [(''agents'', JArr [])]) JNull) JNull" 0
      "\<lparr>http = 1\<rparr>" "MockClientSession (JObj [(''agents'', JArr [])]) JNull" "''gpt4''"
      "[(''agents'', JArr [])]"]
  by (simp add: test_world_def MockClientSession_def)

text \<open>
  C5, as stated, fails: a response body that is not a JSON object has no \<^verbatim>\<open>session\<close> entry
  either, and subscripting it with a string raises \<^verbatim>\<open>TypeError\<close>, not \<^verbatim>\<open>KeyError\<close>. Here the
  agent has an \<^verbatim>\<open>id\<close> and the transport answers the POST with the body \<^verbatim>\<open>[]\<close>.
\<close>

theorem create_session_KeyError_counterexample:
  "respond (MockClientSession JNull (JArr []))
     (POST ''/sessions'' (JObj [(''agent_id'', JStr ''test-agent-1'')])) = Body (JArr []) \<and>
   fst (create_session 0 2 (test_world (MockClientSession JNull (JArr [])) mock_agent))
     = Inl TypeError \<and>
   \<not> is_KeyError TypeError"
  by (simp add: create_session_def http_of_def test_world_def MockClientSession_def
      mock_agent_def fst_async_with create_session_body_def)

text \<open>
  C5, amended. For an agent dictionary, \<open>create_session\<close> ends with a \<^verbatim>\<open>KeyError\<close> exactly
  when the agent has no \<^verbatim>\<open>id\<close> entry, or the response is acquired and its body is a JSON
  object with no \<^verbatim>\<open>session\<close> entry. The error is the one the subscription raised, with the
  missing key: \<^verbatim>\<open>KeyError('id')\<close> in the first case, \<^verbatim>\<open>KeyError('session')\<close> in the second.
\<close>

theorem create_session_KeyError_iff:
  assumes "heap w self = Hub h" and "heap w (http h) = Session tr"
    and "heap w agent = Val (JObj items)"
  shows "(map_of items ''id'' = None
            \<longrightarrow> fst (create_session self agent w) = Inl (KeyError (JStr ''id''))) \<and>
         (\<forall>v kvs.
            map_of items ''id'' = Some v \<and>
            respond tr (POST ''/sessions'' (JObj [(''agent_id'', v)])) = Body (JObj kvs) \<and>
            map_of kvs ''session'' = None
            \<longrightarrow> fst (create_session self agent w) = Inl (KeyError (JStr ''session''))) \<and>
         ((\<exists>e. fst (create_session self agent w) = Inl e \<and> is_KeyError e) \<longleftrightarrow>
          (map_of items ''id'' = None \<or>
           (\<exists>v kvs.
              map_of items ''id'' = Some v \<and>
              respond tr (POST ''/sessions'' (JObj [(''agent_id'', v)])) = Body (JObj kvs) \<and>
              map_of kvs ''session'' = None)))"
proof -
  have c: "http_of w self ''post'' = Inr (http h, tr)"
    using assms by (simp add: http_of_hub)
  show ?thesis
  proof (cases "map_of items ''id''")
    case None
    then show ?thesis using assms c by (simp add: create_session_def)
  next
    case (Some v)
    have r: "fst (create_session self agent w)
               = (case respond tr (POST ''/sessions'' (JObj [(''agent_id'', v)])) of
                    Refused msg \<Rightarrow> Inl (TransportError msg)
                  | resp \<Rightarrow> create_session_body resp)"
      using assms c Some by (simp add: create_session_def fst_async_with)
    show ?thesis
    proof (cases "respond tr (POST ''/sessions'' (JObj [(''agent_id'', v)]))")
      case (Refused msg)
      then show ?thesis using Some r by simp
    next
      case (Malformed msg)
      then show ?thesis using Some r by (simp add: create_session_body_def)
    next
      case (Body data)
      then show ?thesis using Some r
        by (cases data) (auto simp: create_session_body_def split: option.splits)
    qed
  qed
qed

theorem create_session_KeyError_iff_witness:
  "fst (create_session 0 2
       (test_world (MockClientSession JNull (JObj [(''sessions'', JArr [])])) mock_agent))
     = Inl (KeyError (JStr ''session'')) \<and>
   fst (create_session 0 2
       (test_world (MockClientSession JNull mock_session) (JObj [(''name'', JStr ''gpt4'')])))
     = Inl (KeyError (JStr ''id'')) \<and>
   (\<nexists>e. fst (create_session 0 2
       (test_world (MockClientSession JNull (JObj [(''session'', mock_session)])) mock_agent))
          = Inl e \<and> is_KeyError e)"
  using create_session_KeyError_iff [of
      "test_world (MockClientSession JNull (JObj [(''sessions'', JArr [])])) mock_agent" 0
      "\<lparr>http = 1\<rparr>" "MockClientSession JNull (JObj [(''sessions'', JArr [])])" 2
      "[(''id'', JStr ''test-agent-1''), (''name'', JStr ''gpt4''),
        (''capabilities'', JArr [JStr ''chat'', JStr ''completion''])]"]
    create_session_KeyError_iff [of
      "test_world (MockClientSession JNull mock_session) (JObj [(''name'', JStr ''gpt4'')])" 0
      "\<lparr>http = 1\<rparr>" "MockClientSession JNull mock_session" 2
      "[(''name'', JStr ''gpt4'')]"]
    create_session_KeyError_iff [of
      "test_world (MockClientSession JNull (JObj [(''session'', mock_session)])) mock_agent" 0
      "\<lparr>http = 1\<rparr>" "MockClientSession JNull (JObj [(''session'', mock_session)])" 2
      "[(''id'', JStr ''test-agent-1''), (''name'', JStr ''gpt4''),
        (''capabilities'', JArr [JStr ''chat'', JStr ''completion''])]"]
  by (simp add: test_world_def MockClientSession_def mock_agent_def)

subsection \<open>No memory between calls\<close>

text \<open>
  C6. The result of a second \<open>find_agent\<close> call with the same name is computed from the reply
  to its own request alone; so when the transport gives the second request the reply it gave
  the first, the two calls return equal results. Nothing of the first call is kept.
\<close>

theorem find_agent_twice:
  assumes "heap w self = Hub h" and "heap w (http h) = Session tr"
    and "req = GET ''/agents'' [(''name'', name)]"
  shows "fst (find_agent self name (snd (find_agent self name w)))
           = (case respond (advance tr req) req of
                Refused msg \<Rightarrow> Inl (TransportError msg)
              | resp \<Rightarrow> find_agent_body resp) \<and>
         (respond (advance tr req) req = respond tr req
            \<longrightarrow> fst (find_agent self name (snd (find_agent self name w)))
                  = fst (find_agent self name w))"
proof -
  let ?w1 = "snd (find_agent self name w)"
  have ne: "http h \<noteq> self" using assms by auto
  have h1: "heap ?w1 self = Hub h"
    using assms ne by (simp add: heap_find_agent)
  have t1: "heap ?w1 (http h) = Session (advance tr req)"
    using assms by (simp add: heap_find_agent)
  show ?thesis
    using fst_find_agent [OF h1 t1, of name] fst_find_agent [OF assms(1,2), of name] assms(3)
    by simp
qed

theorem find_agent_twice_witness:
  "fst (find_agent 0 ''gpt4'' (snd (find_agent 0 ''gpt4''
        (test_world (MockClientSession (JObj [(''agents'', JArr [mock_agent])]) JNull) JNull))))
     = Inr mock_agent \<and>
   fst (find_agent 0 ''gpt4''
        (test_world (MockClientSession (JObj [(''agents'', JArr [mock_agent])]) JNull) JNull))
     = Inr mock_agent"
  using find_agent_twice [of
      "test_world (MockClientSession (JObj [(''agents'', JArr [mock_agent])]) JNull) JNull" 0
      "\<lparr>http = 1\<rparr>" "MockClientSession (JObj [(''agents'', JArr [mock_agent])]) JNull"
      "GET ''/agents'' [(''name'', ''gpt4'')]" "''gpt4''"]
  by (simp add: test_world_def MockClientSession_def find_agent_body_def find_agent_def
      http_of_def fst_async_with)

subsection \<open>Frame and resources\<close>

text \<open>
  C7. Neither method changes the client: after every call, returned or raised, the object at
  \<open>self\<close> is the object that was there, with the same transport reference in \<^verbatim>\<open>_http\<close>.
  \<open>create_session\<close> also leaves the agent it was given as it was.
\<close>

theorem client_and_agent_unchanged:
  "heap (snd (find_agent self name w)) self = heap w self \<and>
   heap (snd (create_session self agent w)) self = heap w self \<and>
   heap (snd (create_session self agent w)) agent = heap w agent"
proof -
  have 1: "heap (snd (find_agent self name w)) self = heap w self"
    by (auto simp: find_agent_def heap_async_with dest: http_of_not_self split: sum.splits)
  have 2: "heap (snd (create_session self agent w)) self = heap w self"
    by (auto simp: create_session_def heap_async_with dest: http_of_not_self split: sum.splits)
  have 3: "heap (snd (create_session self agent w)) agent = heap w agent"
    by (auto simp: create_session_def heap_async_with
        dest: http_of_Session agent_id_not_Session split: sum.splits)
  from 1 2 3 show ?thesis by simp
qed

text \<open>
  C8. The response a call of \<open>find_agent\<close> or \<open>create_session\<close> acquires is released
  when the call completes. Unless the request is refused (then no response is acquired and
  the scope log stays as it was), the call adds exactly two events to the scope log: the
  \<open>Enter\<close> of a fresh response and, last, the \<open>Exit\<close> of that same response, which carries
  the exception of the call when the call failed (also one raised by the subscription of the
  parsed body) and nothing when it returned. A \<open>create_session\<close> that fails at
  \<^verbatim>\<open>agent["id"]\<close> acquires nothing.
\<close>

theorem scoped_response_released:
  assumes "heap w self = Hub h" and "heap w (http h) = Session tr"
  shows "scopes (snd (find_agent self name w)) =
           (case respond tr (GET ''/agents'' [(''name'', name)]) of
              Refused msg \<Rightarrow> scopes w
            | resp \<Rightarrow>
                scopes w @ [Enter (next_resp w),
                            Exit (next_resp w) (raised (fst (find_agent self name w)))]) \<and>
         (\<forall>v. agent_id (heap w agent) = Inr v \<longrightarrow>
            scopes (snd (create_session self agent w)) =
              (case respond tr (POST ''/sessions'' (JObj [(''agent_id'', v)])) of
                 Refused msg \<Rightarrow> scopes w
               | resp \<Rightarrow>
                   scopes w @ [Enter (next_resp w),
                               Exit (next_resp w) (raised (fst (create_session self agent w)))])) \<and>
         ((\<exists>e. agent_id (heap w agent) = Inl e) \<longrightarrow>
            scopes (snd (create_session self agent w)) = scopes w)"
proof -
  have c: "http_of w self meth = Inr (http h, tr)" for meth
    using assms by (simp add: http_of_hub)
  have 1: "scopes (snd (find_agent self name w)) =
           (case respond tr (GET ''/agents'' [(''name'', name)]) of
              Refused msg \<Rightarrow> scopes w
            | resp \<Rightarrow>
                scopes w @ [Enter (next_resp w),
                            Exit (next_resp w) (raised (fst (find_agent self name w)))])"
    by (simp add: find_agent_def c scopes_async_with fst_async_with split: reply.splits)
  have 2: "scopes (snd (create_session self agent w)) =
              (case respond tr (POST ''/sessions'' (JObj [(''agent_id'', v)])) of
                 Refused msg \<Rightarrow> scopes w
               | resp \<Rightarrow>
                   scopes w @ [Enter (next_resp w),
                               Exit (next_resp w) (raised (fst (create_session self agent w)))])"
    if "agent_id (heap w agent) = Inr v" for v
    using that
    by (simp add: create_session_def c scopes_async_with fst_async_with split: reply.splits)
  have 3: "scopes (snd (create_session self agent w)) = scopes w"
    if "agent_id (heap w agent) = Inl e" for e
    using that by (simp add: create_session_def c)
  from 1 2 3 show ?thesis by blast
qed

theorem scoped_response_released_witness:
  "scopes (snd (find_agent 0 ''gpt4''
       (test_world (MockClientSession (JObj [(''agents'', JArr [])]) (JObj [])) mock_agent)))
     = [Enter 0, Exit 0 (Some IndexError)] \<and>
   scopes (snd (create_session 0 2
       (test_world (MockClientSession (JObj [(''agents'', JArr [])]) (JObj [])) mock_agent)))
     = [Enter 0, Exit 0 (Some (KeyError (JStr ''session'')))] \<and>
   scopes (snd (find_agent 0 ''gpt4''
       (test_world (MockClientSession (JObj [(''agents'', JArr [mock_agent])])
                      (JObj [(''session'', mock_session)])) (JObj []))))
     = [Enter 0, Exit 0 None] \<and>
   scopes (snd (create_session 0 2
       (test_world (MockClientSession (JObj [(''agents'', JArr [mock_agent])])
                      (JObj [(''session'', mock_session)])) (JObj []))))
     = []"
proof -
  let ?tr = "MockClientSession (JObj [(''agents'', JArr [])]) (JObj [])"
  let ?w = "test_world ?tr mock_agent"
  let ?tr2 = "MockClientSession (JObj [(''agents'', JArr [mock_agent])])
                (JObj [(''session'', mock_session)])"
  let ?w2 = "test_world ?tr2 (JObj [])"
  have hub: "heap ?w 0 = Hub \<lparr>http = 1\<rparr>" and hub2: "heap ?w2 0 = Hub \<lparr>http = 1\<rparr>"
    by (simp_all add: test_world_def)
  have ses: "heap ?w (http \<lparr>http = 1\<rparr>) = Session ?tr"
    and ses2: "heap ?w2 (http \<lparr>http = 1\<rparr>) = Session ?tr2"
    by (simp_all add: test_world_def)
  have aid: "agent_id (heap ?w 2) = Inr (JStr ''test-agent-1'')"
    by (simp add: test_world_def mock_agent_def)
  have aid2: "agent_id (heap ?w2 2) = Inl (KeyError (JStr ''id''))"
    by (simp add: test_world_def)
  have rf: "fst (find_agent 0 ''gpt4'' ?w) = Inl IndexError"
    using hub ses by (simp add: fst_find_agent find_agent_body_def MockClientSession_def)
  have rf2: "fst (find_agent 0 ''gpt4'' ?w2) = Inr mock_agent"
    using hub2 ses2 by (simp add: fst_find_agent find_agent_body_def MockClientSession_def)
  have rc: "fst (create_session 0 2 ?w) = Inl (KeyError (JStr ''session''))"
    using hub ses aid
    by (simp add: create_session_def http_of_hub fst_async_with create_session_body_def
        MockClientSession_def)
  have s0: "scopes ?w = []" "next_resp ?w = 0" "scopes ?w2 = []" "next_resp ?w2 = 0"
    by (simp_all add: test_world_def)
  have g: "respond ?tr (GET ''/agents'' [(''name'', ''gpt4'')]) = Body (JObj [(''agents'', JArr [])])"
    and p: "respond ?tr (POST ''/sessions'' (JObj [(''agent_id'', JStr ''test-agent-1'')]))
              = Body (JObj [])"
    and g2: "respond ?tr2 (GET ''/agents'' [(''name'', ''gpt4'')])
              = Body (JObj [(''agents'', JArr [mock_agent])])"
    by (simp_all add: MockClientSession_def)
  show ?thesis
    using scoped_response_released [OF hub ses, of "''gpt4''" 2]
      scoped_response_released [OF hub2 ses2, of "''gpt4''" 2]
      aid aid2 rf rf2 rc s0 g p g2
    by simp
qed

subsection \<open>What the methods look at\<close>

text \<open>
  C9. Two agent dictionaries with the same \<^verbatim>\<open>id\<close> entry (or both without one) are the same
  to \<open>create_session\<close>: in the same world the two calls issue the same request, return the
  same result and leave the same world. No other entry of the agent is read.
\<close>

theorem create_session_only_reads_id:
  assumes "heap w a1 = Val (JObj items1)" and "heap w a2 = Val (JObj items2)"
    and "map_of items1 ''id'' = map_of items2 ''id''"
  shows "create_session self a1 w = create_session self a2 w"
proof -
  have "agent_id (heap w a1) = agent_id (heap w a2)"
    using assms by simp
  then show ?thesis by (simp add: create_session_def split: sum.split)
qed

theorem create_session_only_reads_id_witness:
  "create_session 0 2
     ((test_world (MockClientSession JNull (JObj [(''session'', mock_session)])) mock_agent)
        \<lparr>heap := (heap (test_world (MockClientSession JNull (JObj [(''session'', mock_session)]))
                        mock_agent))
            (3 := Val (JObj [(''id'', JStr ''test-agent-1''), (''name'', JStr ''claude'')]))\<rparr>)
   = create_session 0 3
     ((test_world (MockClientSession JNull (JObj [(''session'', mock_session)])) mock_agent)
        \<lparr>heap := (heap (test_world (MockClientSession JNull (JObj [(''session'', mock_session)]))
                        mock_agent))
            (3 := Val (JObj [(''id'', JStr ''test-agent-1''), (''name'', JStr ''claude'')]))\<rparr>)"
  using create_session_only_reads_id [of
     "(test_world (MockClientSession JNull (JObj [(''session'', mock_session)])) mock_agent)
        \<lparr>heap := (heap (test_world (MockClientSession JNull (JObj [(''session'', mock_session)]))
                        mock_agent))
            (3 := Val (JObj [(''id'', JStr ''test-agent-1''), (''name'', JStr ''claude'')]))\<rparr>"
     2 "[(''id'', JStr ''test-agent-1''), (''name'', JStr ''gpt4''),
        (''capabilities'', JArr [JStr ''chat'', JStr ''completion''])]"
     3 "[(''id'', JStr ''test-agent-1''), (''name'', JStr ''claude'')]" 0]
  by (simp add: test_world_def mock_agent_def)

text \<open>
  C10. \<open>find_agent\<close> does not compare the agent it returns with the name it was asked for:
  when the first element of the \<^verbatim>\<open>agents\<close> array has another \<^verbatim>\<open>name\<close> (or none), that
  element is returned all the same. The witness asks for \<^verbatim>\<open>claude\<close> and gets the agent
  named \<^verbatim>\<open>gpt4\<close>.
\<close>

theorem find_agent_ignores_name:
  assumes "heap w self = Hub h" and "heap w (http h) = Session tr"
    and "respond tr (GET ''/agents'' [(''name'', name)]) = Body (JObj kvs)"
    and "map_of kvs ''agents'' = Some (JArr (a # rest))"
    and "getitem_str a ''name'' \<noteq> Inr (JStr name)"
  shows "fst (find_agent self name w) = Inr a"
  using assms by (simp add: fst_find_agent find_agent_body_def)

theorem find_agent_ignores_name_witness:
  "getitem_str mock_agent ''name'' \<noteq> Inr (JStr ''claude'') \<and>
   fst (find_agent 0 ''claude''
       (test_world (MockClientSession (JObj [(''agents'', JArr [mock_agent])]) JNull) JNull))
     = Inr mock_agent"
  using find_agent_ignores_name [of
      "test_world (MockClientSession (JObj [(''agents'', JArr [mock_agent])]) JNull) JNull" 0
      "\<lparr>http = 1\<rparr>" "MockClientSession (JObj [(''agents'', JArr [mock_agent])]) JNull"
      "''claude''" "[(''agents'', JArr [mock_agent])]" mock_agent "[]"]
  by (simp add: test_world_def MockClientSession_def mock_agent_def)

end
